theory Spec2Isabelle
  imports Main "HOL-Library.AList" "HOL-Library.Signed_Division"
begin

section \<open>Machine integers of the Go source\<close>

text \<open>
  Go's \<open>int64\<close>: a mathematical integer reduced to the two's complement range
  \<open>-2^63 .. 2^63 - 1\<close>.  Every arithmetic result of the source that has type
  \<open>int64\<close> passes through this conversion; Go's \<open>/\<close> on integers truncates
  toward zero, which is \<open>sdiv\<close>.
\<close>

definition int64 :: "int \<Rightarrow> int" where
  "int64 x = (x + 2 ^ 63) mod 2 ^ 64 - 2 ^ 63"

section \<open>Cgroup encoder: CPU shares and CPU weight\<close>

text \<open>
  The load-bearing constants of the encoder (spec, section 6): minimum shares 2, shares
  per core 1024, maximum shares 262144, 1000 millicores per core.
\<close>

definition MinShares :: int where "MinShares = 2"
definition MaxShares :: int where "MaxShares = 262144"
definition SharesPerCPU :: int where "SharesPerCPU = 1024"
definition MilliCPUToCPU :: int where "MilliCPUToCPU = 1000"

text \<open>
  Modelled from the spec: \<open>kubecm.MilliCPUToShares\<close> (package
  \<open>pkg/kubelet/cm\<close>, called at line 152 of the pod level resources test, its body
  not among the sources).  The spec describes a piecewise-linear mapping with 1024
  shares for a 1-core request, a floor of 2 and a ceiling of 262144, computed with
  integer division.
\<close>

definition MilliCPUToShares :: "int \<Rightarrow> int" where
  "MilliCPUToShares milliCPU =
     (let shares = (milliCPU * SharesPerCPU) sdiv MilliCPUToCPU
      in if shares < MinShares then MinShares
         else if shares > MaxShares then MaxShares
         else shares)"

text \<open>
  Lines 152 to 155 of \<open>VerifyPodCgroups\<close>: the shares value is converted to
  \<open>int64\<close>, then overwritten by its cgroup v2 weight
  \<open>int64(1 + ((expectedCPUShares-2)*9999)/262142)\<close>.  The argument is
  \<open>pod.Spec.Resources.Requests.Cpu().MilliValue()\<close>.
\<close>

definition expectedCPUWeight :: "int \<Rightarrow> int" where
  "expectedCPUWeight milliCPU =
     (let expectedCPUShares = int64 (MilliCPUToShares milliCPU)
      in int64 (1 + int64 (int64 (int64 (expectedCPUShares - 2) * 9999) sdiv 262142)))"

section \<open>Properties of the encoder\<close>

lemma int64_id: "- (2 ^ 63) \<le> x \<Longrightarrow> x < 2 ^ 63 \<Longrightarrow> int64 x = x"
  by (simp add: int64_def)

lemma sdiv_nonneg_eq_div: "0 \<le> a \<Longrightarrow> 0 < b \<Longrightarrow> (a::int) sdiv b = a div b"
  by (simp add: signed_divide_int_def sgn_if)

lemma sdiv_pos_mono: "a \<le> b \<Longrightarrow> 0 < c \<Longrightarrow> (a::int) sdiv c \<le> b sdiv c"
proof -
  assume ab: "a \<le> b" and c: "0 < c"
  have neg: "x sdiv c = - ((- x) div c)" if "x < 0" for x :: int
    using that c by (simp add: signed_divide_int_def sgn_if)
  have pos: "x sdiv c = x div c" if "0 \<le> x" for x :: int
    using that c by (rule sdiv_nonneg_eq_div)
  consider "0 \<le> a" | "a < 0" "0 \<le> b" | "a < 0" "b < 0" by linarith
  then show ?thesis
  proof cases
    case 1
    then have "0 \<le> b" using ab by simp
    with 1 show ?thesis using pos ab c by (simp add: zdiv_mono1)
  next
    case 2
    have "0 \<le> (- a) div c" using 2 c by (simp add: pos_imp_zdiv_nonneg_iff)
    moreover have "0 \<le> b div c" using 2 c by (simp add: pos_imp_zdiv_nonneg_iff)
    ultimately show ?thesis using neg [OF 2(1)] pos [OF 2(2)] by simp
  next
    case 3
    have "(- b) div c \<le> (- a) div c" using ab c by (simp add: zdiv_mono1)
    then show ?thesis using neg [OF 3(1)] neg [OF 3(2)] by simp
  qed
qed

lemma MilliCPUToShares_range: "2 \<le> MilliCPUToShares m \<and> MilliCPUToShares m \<le> 262144"
  by (simp add: MilliCPUToShares_def Let_def MinShares_def MaxShares_def)

lemma MilliCPUToShares_mono: "a \<le> b \<Longrightarrow> MilliCPUToShares a \<le> MilliCPUToShares b"
proof -
  assume "a \<le> b"
  then have "(a * 1024) sdiv 1000 \<le> (b * 1024) sdiv 1000"
    by (intro sdiv_pos_mono) simp_all
  then show ?thesis
    by (simp add: MilliCPUToShares_def Let_def MinShares_def MaxShares_def
        SharesPerCPU_def MilliCPUToCPU_def)
qed

lemma weight_of_shares:
  assumes "2 \<le> s" "s \<le> 262144"
  shows "int64 (1 + int64 (int64 (int64 (int64 s - 2) * 9999) sdiv 262142))
           = 1 + ((s - 2) * 9999) div 262142"
    and "0 \<le> ((s - 2) * 9999) div 262142"
    and "((s - 2) * 9999) div 262142 \<le> 9999"
proof -
  have s: "int64 s = s" using assms by (intro int64_id) simp_all
  have s2: "int64 (s - 2) = s - 2" using assms by (intro int64_id) simp_all
  have lo: "0 \<le> (s - 2) * 9999" using assms by simp
  have hi: "(s - 2) * 9999 \<le> 262142 * 9999" using assms by simp
  have m: "int64 ((s - 2) * 9999) = (s - 2) * 9999" using lo hi by (intro int64_id) simp_all
  have d: "((s - 2) * 9999) sdiv 262142 = ((s - 2) * 9999) div 262142"
    using lo by (intro sdiv_nonneg_eq_div) simp_all
  show q0: "0 \<le> ((s - 2) * 9999) div 262142"
    using lo by (simp add: pos_imp_zdiv_nonneg_iff)
  have "((s - 2) * 9999) div 262142 \<le> (262142 * 9999) div 262142"
    using hi by (intro zdiv_mono1) simp_all
  then show q1: "((s - 2) * 9999) div 262142 \<le> 9999" by simp
  have i: "int64 (((s - 2) * 9999) div 262142) = ((s - 2) * 9999) div 262142"
    using q0 q1 by (intro int64_id) simp_all
  have o: "int64 (1 + ((s - 2) * 9999) div 262142) = 1 + ((s - 2) * 9999) div 262142"
    using q0 q1 by (intro int64_id) simp_all
  show "int64 (1 + int64 (int64 (int64 (int64 s - 2) * 9999) sdiv 262142))
           = 1 + ((s - 2) * 9999) div 262142"
    by (simp only: s s2 m d i o)
qed

lemma expectedCPUWeight_eq:
  "expectedCPUWeight m = 1 + ((MilliCPUToShares m - 2) * 9999) div 262142"
  using MilliCPUToShares_range [of m]
  by (simp add: expectedCPUWeight_def Let_def weight_of_shares(1))

lemma expectedCPUWeight_mono: "a \<le> b \<Longrightarrow> expectedCPUWeight a \<le> expectedCPUWeight b"
proof -
  assume "a \<le> b"
  then have "(MilliCPUToShares a - 2) * 9999 \<le> (MilliCPUToShares b - 2) * 9999"
    using MilliCPUToShares_mono [of a b] by simp
  then have "((MilliCPUToShares a - 2) * 9999) div 262142
               \<le> ((MilliCPUToShares b - 2) * 9999) div 262142"
    by (intro zdiv_mono1) simp_all
  then show ?thesis by (simp add: expectedCPUWeight_eq)
qed

text \<open>
  C3 (CPU weight encoding).  For every CPU request \<open>r\<close> in millicores the encoder
  first forms a shares value between 2 and 262144 (1024 shares per core, clamped), then
  the weight \<open>1 + ((shares - 2) * 9999) / 262142\<close> with truncating division; the
  \<open>int64\<close> arithmetic of the source never wraps, and the weight lies between 1 and
  10000.  For 100m the shares value is 102, which is also the value of the spec's
  expression \<open>2 + (100 * 1024 - 2 * 1000) / 1000\<close>, and the weight is 4.  The two
  divisions cannot be merged into one: at 28m the composed steps give 1 where a single
  division over the unrounded shares would give 2.
\<close>

theorem cpu_weight_two_step:
  "2 \<le> MilliCPUToShares r \<and> MilliCPUToShares r \<le> 262144
   \<and> MilliCPUToShares r = max 2 (min 262144 ((r * 1024) sdiv 1000))
   \<and> expectedCPUWeight r = 1 + ((MilliCPUToShares r - 2) * 9999) sdiv 262142
   \<and> 1 \<le> expectedCPUWeight r \<and> expectedCPUWeight r \<le> 10000
   \<and> MilliCPUToShares 100 = 102
   \<and> MilliCPUToShares 100 = 2 + (100 * 1024 - 2 * 1000) sdiv 1000
   \<and> expectedCPUWeight 100 = 1 + ((102 - 2) * 9999) sdiv 262142
   \<and> expectedCPUWeight 100 = 4
   \<and> expectedCPUWeight 28 = 1
   \<and> 1 + ((28 * 1024 - 2 * 1000) * 9999) sdiv (262142 * 1000) = (2::int)"
proof -
  let ?s = "MilliCPUToShares r"
  have rng: "2 \<le> ?s" "?s \<le> 262144"
    using MilliCPUToShares_range [of r] by simp_all
  have clamp: "?s = max 2 (min 262144 ((r * 1024) sdiv 1000))"
    by (simp add: MilliCPUToShares_def Let_def MinShares_def MaxShares_def
        SharesPerCPU_def MilliCPUToCPU_def max_def min_def)
  have nonneg: "0 \<le> (?s - 2) * 9999" using rng by simp
  have w: "expectedCPUWeight r = 1 + ((?s - 2) * 9999) sdiv 262142"
    using sdiv_nonneg_eq_div [OF nonneg, of 262142] by (simp add: expectedCPUWeight_eq)
  have bounds: "1 \<le> expectedCPUWeight r" "expectedCPUWeight r \<le> 10000"
    using weight_of_shares(2,3) [OF rng] by (simp_all add: expectedCPUWeight_eq)
  have s100: "MilliCPUToShares 100 = 102"
    by (simp add: MilliCPUToShares_def Let_def MinShares_def MaxShares_def
        SharesPerCPU_def MilliCPUToCPU_def signed_divide_int_def)
  have s28: "MilliCPUToShares 28 = 28"
    by (simp add: MilliCPUToShares_def Let_def MinShares_def MaxShares_def
        SharesPerCPU_def MilliCPUToCPU_def signed_divide_int_def)
  have spec100: "(102::int) = 2 + (100 * 1024 - 2 * 1000) sdiv 1000"
    by (simp add: signed_divide_int_def)
  have w100: "expectedCPUWeight 100 = 4"
    by (simp add: expectedCPUWeight_eq s100)
  have w100': "(4::int) = 1 + ((102 - 2) * 9999) sdiv 262142"
    by (simp add: signed_divide_int_def)
  have w28: "expectedCPUWeight 28 = 1"
    by (simp add: expectedCPUWeight_eq s28)
  have short: "1 + ((28 * 1024 - 2 * 1000) * 9999) sdiv (262142 * 1000) = (2::int)"
    by (simp add: signed_divide_int_def)
  show ?thesis
    using rng clamp w bounds s100 spec100 w100 w100' w28 short by (simp only: simp_thms)
qed

text \<open>
  C9 (weight monotonicity).  For CPU requests \<open>r1 < r2\<close> in millicores, the weight
  derived for \<open>r1\<close> by the composed millicores-to-shares-to-weight conversion is at
  most the weight derived for \<open>r2\<close>.
\<close>

theorem cpu_weight_monotone:
  "r1 < r2 \<Longrightarrow> expectedCPUWeight r1 \<le> expectedCPUWeight r2"
proof -
  assume "r1 < r2"
  then have "r1 \<le> r2" by simp
  then show ?thesis by (rule expectedCPUWeight_mono)
qed

theorem cpu_weight_monotone_witness:
  "(100::int) < 2000 \<and> expectedCPUWeight 100 \<le> expectedCPUWeight 2000
   \<and> expectedCPUWeight 100 = 4 \<and> expectedCPUWeight 2000 = 79"
proof -
  have lt: "(100::int) < 2000" by simp
  have a: "expectedCPUWeight 100 = 4"
    by (simp add: expectedCPUWeight_eq MilliCPUToShares_def Let_def MinShares_def
        MaxShares_def SharesPerCPU_def MilliCPUToCPU_def signed_divide_int_def)
  have b: "expectedCPUWeight 2000 = 79"
    by (simp add: expectedCPUWeight_eq MilliCPUToShares_def Let_def MinShares_def
        MaxShares_def SharesPerCPU_def MilliCPUToCPU_def signed_divide_int_def)
  show ?thesis using lt cpu_weight_monotone [OF lt] a b by simp
qed

end
